theory Spec2Isabelle
  imports Complex_Main
begin

section \<open>Data model of radpatterns.py\<close>

text \<open>
  The module works on numpy arrays of two fixed shapes only: vectors of shape (3,) and
  tensors of shape (3,3). A vector is a triple and a tensor is a triple of rows, so the
  shape is part of the type. The entries are Python floats; they are read here as real
  numbers, with \<open>np.sin\<close>, \<open>np.cos\<close> and \<open>np.pi\<close> as the functions and the
  constant of analysis. Rounding of IEEE doubles is not part of this model. The
  theorems below therefore state only what does not depend on it: which expressions
  the code evaluates, in which order it returns them, which branch it takes and which
  arguments it reads. Their proofs unfold the code and select cases; the only facts of
  real arithmetic in them are that \<open>x ** 0.5\<close> is the square root of \<open>x\<close>, and the
  values of \<open>sin\<close> and \<open>cos\<close> at 0 and 90 degrees in the evaluations at concrete
  inputs.
\<close>

type_synonym vec3 = "real \<times> real \<times> real"

type_synonym mat3 = "vec3 \<times> vec3 \<times> vec3"

text \<open>
  The one exception the arithmetic of the module can raise: the division of two Python
  floats with a zero divisor. The arguments of the module are Python numbers (the
  defaults \<open>0.25\<close> and \<open>0.\<close> are Python floats), so \<open>/\<close> is the division of Python and
  raises ZeroDivisionError, where the division of HOL would return 0.
\<close>

datatype error = ZeroDivisionError

definition py_div :: "real \<Rightarrow> real \<Rightarrow> error + real" where
  "py_div a b = (if b = 0 then Inl ZeroDivisionError else Inr (a / b))"

subsection \<open>The numpy operations the module uses\<close>

text \<open>\<open>np.zeros([3,3],dtype=float)\<close>.\<close>

definition zeros33 :: mat3 where
  "zeros33 = ((0, 0, 0), (0, 0, 0), (0, 0, 0))"

text \<open>
  Item assignment \<open>M[i,j]=v\<close>, returning the updated array. Every index in the module
  is one of the literals 0, 1, 2; for any other index numpy raises IndexError, and the
  model leaves the array as it is.
\<close>

fun upd3 :: "'a \<times> 'a \<times> 'a \<Rightarrow> nat \<Rightarrow> 'a \<Rightarrow> 'a \<times> 'a \<times> 'a" where
  "upd3 (a, b, c) i v =
     (if i = 0 then (v, b, c) else if i = 1 then (a, v, c)
      else if i = 2 then (a, b, v) else (a, b, c))"

fun row3 :: "'a \<times> 'a \<times> 'a \<Rightarrow> nat \<Rightarrow> 'a" where
  "row3 (a, b, c) i = (if i = 0 then a else if i = 1 then b else c)"

definition put :: "mat3 \<Rightarrow> nat \<Rightarrow> nat \<Rightarrow> real \<Rightarrow> mat3" where
  "put M i j v = (if i < 3 then upd3 M i (upd3 (row3 M i) j v) else M)"

text \<open>Scalar times array and array plus array, entry by entry.\<close>

fun scale3 :: "real \<Rightarrow> vec3 \<Rightarrow> vec3" where
  "scale3 k (a, b, c) = (k * a, k * b, k * c)"

fun add3 :: "vec3 \<Rightarrow> vec3 \<Rightarrow> vec3" where
  "add3 (a, b, c) (a', b', c') = (a + a', b + b', c + c')"

fun scale33 :: "real \<Rightarrow> mat3 \<Rightarrow> mat3" where
  "scale33 k (r0, r1, r2) = (scale3 k r0, scale3 k r1, scale3 k r2)"

fun add33 :: "mat3 \<Rightarrow> mat3 \<Rightarrow> mat3" where
  "add33 (r0, r1, r2) (s0, s1, s2) = (add3 r0 s0, add3 r1 s1, add3 r2 s2)"

text \<open>\<open>np.dot\<close> of two vectors, and of a tensor and a vector.\<close>

fun dot :: "vec3 \<Rightarrow> vec3 \<Rightarrow> real" where
  "dot (a, b, c) (a', b', c') = a * a' + b * b' + c * c'"

fun dot_mv :: "mat3 \<Rightarrow> vec3 \<Rightarrow> vec3" where
  "dot_mv (r0, r1, r2) v = (dot r0 v, dot r1 v, dot r2 v)"

text \<open>The attribute \<open>.T\<close>.\<close>

fun T :: "mat3 \<Rightarrow> mat3" where
  "T ((a, b, c), (d, e, f), (g, h, i)) = ((a, d, g), (b, e, h), (c, f, i))"

text \<open>
  \<open>np.tensordot(A,B,axes=[1,0])\<close>: axis 1 of \<open>A\<close> is summed against axis 0 of \<open>B\<close>,
  so the entry at \<open>[i,j]\<close> is the dot product of row \<open>i\<close> of \<open>A\<close> and column \<open>j\<close> of \<open>B\<close>.
\<close>

fun tensordot :: "mat3 \<Rightarrow> mat3 \<Rightarrow> mat3" where
  "tensordot (r0, r1, r2) B =
     (case T B of (c0, c1, c2) \<Rightarrow>
        ((dot r0 c0, dot r0 c1, dot r0 c2),
         (dot r1 c0, dot r1 c1, dot r1 c2),
         (dot r2 c0, dot r2 c1, dot r2 c2)))"

section \<open>The functions of the module\<close>

subsection \<open>fault_projected_moment_tensor\<close>

text \<open>
  The ratio \<open>lambda2shmod\<close> is computed first and for every slip type, so its division
  is the first thing that can fail. The three branches are tried in the order of the
  source: shear, explosion, opening; a slip type that matches none leaves the zeros.
\<close>

definition fault_projected_moment_tensor :: "string \<Rightarrow> real \<Rightarrow> real \<Rightarrow> error + mat3" where
  "fault_projected_moment_tensor slip_type rake poissons_ratio =
     (case py_div (2 * poissons_ratio) (1 - 2 * poissons_ratio) of
        Inl e \<Rightarrow> Inl e
      | Inr lambda2shmod \<Rightarrow>
          (let M = zeros33 in
           if slip_type \<in> set [''shear''] then
             (let slip_strike = cos (rake * pi / 180);
                  M = put M 1 2 slip_strike;
                  M = put M 2 1 slip_strike;
                  slip_downdip = - sin (rake * pi / 180);
                  M = put M 0 2 slip_downdip;
                  M = put M 2 0 slip_downdip
              in Inr M)
           else if slip_type \<in> set [''explosion''] then
             (let M = put M 0 0 ((2 / 3) powr (1 / 2));
                  M = put M 1 1 ((2 / 3) powr (1 / 2));
                  M = put M 2 2 ((2 / 3) powr (1 / 2))
              in Inr M)
           else if slip_type \<in> set [''opening''] then
             (let M = put M 0 0 lambda2shmod;
                  M = put M 1 1 lambda2shmod;
                  M = put M 2 2 (lambda2shmod + 2)
              in Inr M)
           else Inr M))"

subsection \<open>create_moment_tensor\<close>

text \<open>
  The defaults of the keyword arguments of \<open>fault_projected_moment_tensor\<close>, which
  apply wherever a call leaves the argument out.
\<close>

definition default_rake :: real where
  "default_rake = 0"

definition default_poissons_ratio :: real where
  "default_poissons_ratio = 0.25"

text \<open>
  The two calls are \<open>fault_projected_moment_tensor(slip_type='shear',rake=rake)\<close> and
  \<open>fault_projected_moment_tensor(slip_type='opening')\<close>: neither passes
  \<open>poissons_ratio\<close>, and the second passes no rake, so the defaults stand in.
\<close>

definition create_moment_tensor ::
  "real \<Rightarrow> real \<Rightarrow> real \<Rightarrow> real \<Rightarrow> string \<Rightarrow> real \<Rightarrow> error + mat3" where
  "create_moment_tensor strike dip rake opening_angle coordinates poissons_ratio =
     (case fault_projected_moment_tensor ''shear'' rake default_poissons_ratio of
        Inl e \<Rightarrow> Inl e
      | Inr Mshear \<Rightarrow>
     (case fault_projected_moment_tensor ''opening'' default_rake default_poissons_ratio of
        Inl e \<Rightarrow> Inl e
      | Inr Mopen \<Rightarrow>
          (let fraction_shear = cos (opening_angle * pi / 180);
               fraction_opening = sin (opening_angle * pi / 180);
               M = add33 (scale33 fraction_shear Mshear) (scale33 fraction_opening Mopen)
           in
           if coordinates \<in> set [''xyz'', ''XYZ'', ''ENZ'', ''enz''] then
             (let dip = dip * pi / 180;
                  strike = strike * pi / 180;
                  R = zeros33;
                  R = put R 1 1 1;
                  R = put R 0 0 (cos dip);
                  R = put R 2 0 (- sin dip);
                  R = put R 0 2 (sin dip);
                  R = put R 2 2 (cos dip);
                  M = tensordot R (tensordot M (T R));
                  R = zeros33;
                  R = put R 2 2 1;
                  R = put R 0 0 (cos strike);
                  R = put R 0 1 (sin strike);
                  R = put R 1 1 (cos strike);
                  R = put R 1 0 (- sin strike);
                  M = tensordot R (tensordot M (T R))
              in Inr M)
           else Inr M)))"

subsection \<open>calc_unit_vectors\<close>

text \<open>
  \<open>theta_vec\<close> and \<open>phi_vec\<close> are each assigned twice in the source; both assignments
  are kept, in order.
\<close>

definition calc_unit_vectors :: "real \<Rightarrow> real \<Rightarrow> vec3 \<times> vec3 \<times> vec3" where
  "calc_unit_vectors takeoff_angle azimuth =
     (let theta = takeoff_angle * pi / 180;
          phi = azimuth * pi / 180;
          R_vec = ((sin theta * sin phi, sin theta * cos phi, - cos theta) :: vec3);
          theta_vec = ((cos theta * cos phi, cos theta * sin phi, - sin theta) :: vec3);
          theta_vec = ((cos theta * sin phi, cos theta * cos phi, sin theta) :: vec3);
          phi_vec = ((- sin phi, cos phi, 0) :: vec3);
          phi_vec = ((cos phi, - sin phi, 0) :: vec3)
      in (R_vec, theta_vec, phi_vec))"

subsection \<open>calc_radiation_pattern\<close>

definition calc_radiation_pattern :: "mat3 \<Rightarrow> real \<Rightarrow> real \<Rightarrow> real \<times> real \<times> real" where
  "calc_radiation_pattern M takeoff_angle azimuth =
     (case calc_unit_vectors takeoff_angle azimuth of
        (R_vec, theta_vec, phi_vec) \<Rightarrow>
          (let rd_sh = dot phi_vec (dot_mv M R_vec);
               rd_sv = dot theta_vec (dot_mv M R_vec);
               rd_p = dot R_vec (dot_mv M R_vec)
           in (rd_p, rd_sh, rd_sv)))"

section \<open>Vocabulary of the properties\<close>

definition symmetric :: "mat3 \<Rightarrow> bool" where
  "symmetric M = (T M = M)"

text \<open>The entry \<open>M[i,j]\<close> of a tensor, for \<open>i\<close> and \<open>j\<close> below 3.\<close>

definition entry :: "mat3 \<Rightarrow> nat \<Rightarrow> nat \<Rightarrow> real" where
  "entry M i j = row3 (row3 M i) j"

text \<open>
  A name for the value of \<open>M\<close> after the line
  \<open>M=fraction_shear*Mshear+fraction_opening*Mopen\<close> of \<open>create_moment_tensor\<close>; the
  lemma \<open>create_moment_tensor_fault_frame\<close> ties it to the code.
\<close>

definition blended :: "real \<Rightarrow> real \<Rightarrow> mat3" where
  "blended rake opening_angle =
     add33 (scale33 (cos (opening_angle * pi / 180))
              ((0, 0, - sin (rake * pi / 180)),
               (0, 0, cos (rake * pi / 180)),
               (- sin (rake * pi / 180), cos (rake * pi / 180), 0)))
           (scale33 (sin (opening_angle * pi / 180)) ((1, 0, 0), (0, 1, 0), (0, 0, 3)))"

text \<open>
  The blend as the specification words it, to be compared with the one of the code:
  the shear tensor is built from the rake alone, the opening tensor from the
  Poisson's ratio of the caller (its rake argument is left out), and the two are
  weighted by the cosine and the sine of the opening angle.
\<close>

definition spec_blended_tensor :: "real \<Rightarrow> real \<Rightarrow> real \<Rightarrow> error + mat3" where
  "spec_blended_tensor rake opening_angle poissons_ratio =
     (case fault_projected_moment_tensor ''shear'' rake default_poissons_ratio of
        Inl e \<Rightarrow> Inl e
      | Inr M_shear \<Rightarrow>
     (case fault_projected_moment_tensor ''opening'' default_rake poissons_ratio of
        Inl e \<Rightarrow> Inl e
      | Inr M_opening \<Rightarrow>
          Inr (add33 (scale33 (cos (opening_angle * pi / 180)) M_shear)
                     (scale33 (sin (opening_angle * pi / 180)) M_opening))))"

section \<open>Symmetry, entry by entry\<close>

lemma mat3_cases:
  obtains a b c d e f g h i where "(M :: mat3) = ((a, b, c), (d, e, f), (g, h, i))"
  by (metis prod_cases3)

lemma all_below_3: "(\<forall>i<3. P i) \<longleftrightarrow> P 0 \<and> P 1 \<and> P (2::nat)"
proof -
  have "\<And>i::nat. i < 3 \<longleftrightarrow> i = 0 \<or> i = 1 \<or> i = 2" by arith
  then show ?thesis by auto
qed

lemma symmetric_entries:
  "symmetric M \<longleftrightarrow> (\<forall>i<3. \<forall>j<3. entry M i j = entry M j i)"
proof -
  obtain a b c d e f g h i where M: "M = ((a, b, c), (d, e, f), (g, h, i))"
    by (rule mat3_cases)
  have "(\<forall>i<3. \<forall>j<3. entry M i j = entry M j i) \<longleftrightarrow> b = d \<and> c = g \<and> f = h"
    unfolding all_below_3 M by (simp add: entry_def eq_commute conj_commute conj_left_commute)
  moreover have "symmetric M \<longleftrightarrow> b = d \<and> c = g \<and> f = h"
    unfolding M by (simp add: symmetric_def eq_commute conj_commute conj_left_commute)
  ultimately show ?thesis by (simp only:)
qed

section \<open>What each function computes\<close>

subsection \<open>fault_projected_moment_tensor\<close>

text \<open>
  The function returns a tensor exactly when Poisson's ratio is not one half; at one
  half the division in \<open>lambda2shmod\<close> raises, whatever the slip type.
\<close>

lemma fpmt_half:
  "fault_projected_moment_tensor slip_type rake (1 / 2) = Inl ZeroDivisionError"
  by (simp add: fault_projected_moment_tensor_def py_div_def)

lemma fpmt_shear:
  "poissons_ratio \<noteq> 1 / 2 \<Longrightarrow>
   fault_projected_moment_tensor ''shear'' rake poissons_ratio =
     Inr ((0, 0, - sin (rake * pi / 180)),
          (0, 0, cos (rake * pi / 180)),
          (- sin (rake * pi / 180), cos (rake * pi / 180), 0))"
  by (simp add: fault_projected_moment_tensor_def py_div_def zeros33_def put_def Let_def)

lemma fpmt_explosion:
  "poissons_ratio \<noteq> 1 / 2 \<Longrightarrow>
   fault_projected_moment_tensor ''explosion'' rake poissons_ratio =
     Inr ((sqrt (2 / 3), 0, 0), (0, sqrt (2 / 3), 0), (0, 0, sqrt (2 / 3)))"
  by (simp add: fault_projected_moment_tensor_def py_div_def zeros33_def put_def Let_def
      powr_half_sqrt)

lemma fpmt_opening:
  "poissons_ratio \<noteq> 1 / 2 \<Longrightarrow>
   fault_projected_moment_tensor ''opening'' rake poissons_ratio =
     Inr ((2 * poissons_ratio / (1 - 2 * poissons_ratio), 0, 0),
          (0, 2 * poissons_ratio / (1 - 2 * poissons_ratio), 0),
          (0, 0, 2 * poissons_ratio / (1 - 2 * poissons_ratio) + 2))"
  by (simp add: fault_projected_moment_tensor_def py_div_def zeros33_def put_def Let_def)

lemma fpmt_other:
  "poissons_ratio \<noteq> 1 / 2 \<Longrightarrow>
   slip_type \<notin> set [''shear'', ''opening'', ''explosion''] \<Longrightarrow>
   fault_projected_moment_tensor slip_type rake poissons_ratio = Inr zeros33"
  by (simp add: fault_projected_moment_tensor_def py_div_def Let_def)

lemma fpmt_returns:
  "(\<exists>M. fault_projected_moment_tensor slip_type rake poissons_ratio = Inr M)
     \<longleftrightarrow> poissons_ratio \<noteq> 1 / 2"
  by (simp add: fault_projected_moment_tensor_def py_div_def Let_def del: split_paired_Ex)

lemma fpmt_symmetric:
  assumes "fault_projected_moment_tensor slip_type rake poissons_ratio = Inr M"
  shows "symmetric M"
proof -
  from assms have nz: "poissons_ratio \<noteq> 1 / 2"
    using fpmt_returns by blast
  consider "slip_type = ''shear''" | "slip_type = ''explosion''" | "slip_type = ''opening''"
    | "slip_type \<notin> set [''shear'', ''opening'', ''explosion'']"
    by auto
  then show ?thesis
  proof cases
    case 1
    with assms fpmt_shear [OF nz, of rake] show ?thesis by (auto simp: symmetric_def)
  next
    case 2
    with assms fpmt_explosion [OF nz, of rake] show ?thesis by (auto simp: symmetric_def)
  next
    case 3
    with assms fpmt_opening [OF nz, of rake] show ?thesis by (auto simp: symmetric_def)
  next
    case 4
    with assms fpmt_other [OF nz, of slip_type rake] show ?thesis
      by (auto simp: symmetric_def zeros33_def)
  qed
qed

subsection \<open>create_moment_tensor\<close>

lemma fpmt_shear_default:
  "fault_projected_moment_tensor ''shear'' rake default_poissons_ratio =
     Inr ((0, 0, - sin (rake * pi / 180)),
          (0, 0, cos (rake * pi / 180)),
          (- sin (rake * pi / 180), cos (rake * pi / 180), 0))"
  by (simp add: fpmt_shear default_poissons_ratio_def)

lemma fpmt_opening_default:
  "fault_projected_moment_tensor ''opening'' default_rake default_poissons_ratio =
     Inr ((1, 0, 0), (0, 1, 0), (0, 0, 3))"
  by (simp add: fpmt_opening default_poissons_ratio_def)

lemma create_moment_tensor_fault_frame:
  "coordinates \<notin> set [''xyz'', ''XYZ'', ''ENZ'', ''enz''] \<Longrightarrow>
   create_moment_tensor strike dip rake opening_angle coordinates poissons_ratio =
     Inr (blended rake opening_angle)"
  unfolding create_moment_tensor_def fpmt_opening_default fpmt_shear_default blended_def
  by (simp add: Let_def)

lemma symmetric_blended: "symmetric (blended rake opening_angle)"
  by (simp add: symmetric_def blended_def)

text \<open>
  In the fault frame the entries \<open>[i,j]\<close> and \<open>[j,i]\<close> of the result come from the
  same operations on the same operands, so the tensor is symmetric in any arithmetic.
\<close>

lemma create_moment_tensor_fault_frame_symmetric:
  assumes "coordinates \<notin> set [''xyz'', ''XYZ'', ''ENZ'', ''enz'']"
  shows "\<exists>M. create_moment_tensor strike dip rake opening_angle coordinates poissons_ratio
              = Inr M \<and> symmetric M"
  by (simp only: create_moment_tensor_fault_frame [OF assms] symmetric_blended sum.inject
      simp_thms ex_simps)

lemma create_moment_tensor_ignores_poissons_ratio:
  "create_moment_tensor strike dip rake opening_angle coordinates poissons_ratio =
   create_moment_tensor strike dip rake opening_angle coordinates poissons_ratio'"
  by (simp only: create_moment_tensor_def)

section \<open>The claims\<close>

text \<open>
  Claim C1: \<open>create_moment_tensor\<close> builds its opening-mode component with the
  Poisson's ratio of its caller, so that the blended fault-local tensor is
  \<open>cos(opening_angle)*M_shear(rake) + sin(opening_angle)*M_opening(poissons_ratio)\<close>.

  The code does not: the call \<open>fault_projected_moment_tensor(slip_type='opening')\<close>
  passes no Poisson's ratio, so the default 0.25 is used and the argument of the caller
  is never read. At strike 0, dip 0, rake 0, opening angle 90, the fault frame and
  Poisson's ratio 0.1, the code returns the diagonal (1, 1, 3), which belongs to the
  ratio 0.25, where the blend of the claim has the diagonal (0.25, 0.25, 2.25).
\<close>

theorem create_moment_tensor_drops_poissons_ratio:
  "create_moment_tensor 0 0 0 90 ''fault'' (1 / 10) =
     Inr ((1, 0, 0), (0, 1, 0), (0, 0, 3))
   \<and> spec_blended_tensor 0 90 (1 / 10) =
     Inr ((1 / 4, 0, 0), (0, 1 / 4, 0), (0, 0, 9 / 4))"
  by (simp add: create_moment_tensor_fault_frame blended_def spec_blended_tensor_def
      fpmt_shear_default fpmt_opening default_rake_def)

text \<open>
  Claim C2: with \<open>theta\<close> and \<open>phi\<close> the takeoff angle and the azimuth in radians,
  \<open>calc_unit_vectors\<close> returns, in this order,
  \<open>R_vec = (sin theta * sin phi, sin theta * cos phi, -cos theta)\<close>,
  \<open>theta_vec = (cos theta * sin phi, cos theta * cos phi, sin theta)\<close> and
  \<open>phi_vec = (cos phi, -sin phi, 0)\<close>; the first assignments to \<open>theta_vec\<close> and
  \<open>phi_vec\<close> do not reach the result.
\<close>

theorem calc_unit_vectors_formulas:
  "calc_unit_vectors takeoff_angle azimuth =
     (let theta = takeoff_angle * pi / 180;
          phi = azimuth * pi / 180;
          R_vec = (sin theta * sin phi, sin theta * cos phi, - cos theta);
          theta_vec = (cos theta * sin phi, cos theta * cos phi, sin theta);
          phi_vec = (cos phi, - sin phi, 0)
      in (R_vec, theta_vec, phi_vec))"
  by (simp add: calc_unit_vectors_def Let_def)

text \<open>
  Claim C3: for every tensor \<open>M\<close>, takeoff angle and azimuth,
  \<open>calc_radiation_pattern\<close> returns \<open>(P, SH, SV)\<close> with \<open>P = R_vec . (M . R_vec)\<close>,
  \<open>SH = phi_vec . (M . R_vec)\<close> and \<open>SV = theta_vec . (M . R_vec)\<close>, the three vectors
  being those of \<open>calc_unit_vectors\<close> for the same angles.
\<close>

theorem calc_radiation_pattern_projections:
  "calc_radiation_pattern M takeoff_angle azimuth =
     (let (R_vec, theta_vec, phi_vec) = calc_unit_vectors takeoff_angle azimuth;
          d = dot_mv M R_vec
      in (dot R_vec d, dot phi_vec d, dot theta_vec d))"
  by (simp add: calc_radiation_pattern_def Let_def)

text \<open>
  Claim C4: \<open>fault_projected_moment_tensor\<close> produces, for the slip type shear, the
  tensor with \<open>M[0,2] = M[2,0] = -sin(rake)\<close> and \<open>M[1,2] = M[2,1] = cos(rake)\<close>; for
  opening, the diagonal \<open>(l, l, l+2)\<close> with
  \<open>l = 2*poissons_ratio/(1-2*poissons_ratio)\<close>; for explosion, the diagonal with
  every entry \<open>sqrt(2/3)\<close>; every other entry is zero. The rake is in degrees. The
  ratio \<open>l\<close> exists when Poisson's ratio is not one half, and by \<open>fpmt_returns\<close> this
  is also the condition under which the function produces a tensor at all.
\<close>

theorem fault_projected_moment_tensor_entries:
  "poissons_ratio \<noteq> 1 / 2 \<Longrightarrow>
     fault_projected_moment_tensor ''shear'' rake poissons_ratio =
       Inr ((0, 0, - sin (rake * pi / 180)),
            (0, 0, cos (rake * pi / 180)),
            (- sin (rake * pi / 180), cos (rake * pi / 180), 0))
     \<and> fault_projected_moment_tensor ''opening'' rake poissons_ratio =
       (let l = 2 * poissons_ratio / (1 - 2 * poissons_ratio)
        in Inr ((l, 0, 0), (0, l, 0), (0, 0, l + 2)))
     \<and> fault_projected_moment_tensor ''explosion'' rake poissons_ratio =
       Inr ((sqrt (2 / 3), 0, 0), (0, sqrt (2 / 3), 0), (0, 0, sqrt (2 / 3)))"
  by (simp add: fpmt_shear fpmt_opening fpmt_explosion Let_def)

theorem fault_projected_moment_tensor_entries_witness:
  "fault_projected_moment_tensor ''shear'' 90 (1 / 4) = Inr ((0, 0, - 1), (0, 0, 0), (- 1, 0, 0))
   \<and> fault_projected_moment_tensor ''opening'' 90 (1 / 4) = Inr ((1, 0, 0), (0, 1, 0), (0, 0, 3))
   \<and> fault_projected_moment_tensor ''explosion'' 90 (1 / 4) =
       Inr ((sqrt (2 / 3), 0, 0), (0, sqrt (2 / 3), 0), (0, 0, sqrt (2 / 3)))"
  using fault_projected_moment_tensor_entries [of "1 / 4" 90] by simp

text \<open>
  Claim C8: unrecognized categorical inputs fall back silently. For every slip type
  other than shear, opening and explosion, \<open>fault_projected_moment_tensor\<close> returns
  the zero tensor; for every coordinates value other than \<open>xyz\<close>, \<open>XYZ\<close>, \<open>ENZ\<close> and
  \<open>enz\<close>, \<open>create_moment_tensor\<close> returns the blended fault-local tensor, the value
  of \<open>fraction_shear*Mshear+fraction_opening*Mopen\<close>, with no rotation applied.
  Whether the first function returns at all does not depend on the slip type: it does
  unless Poisson's ratio is one half (\<open>fpmt_returns\<close>).
\<close>

theorem unrecognized_inputs_fall_back:
  "(slip_type \<notin> set [''shear'', ''opening'', ''explosion''] \<and> poissons_ratio \<noteq> 1 / 2 \<longrightarrow>
      fault_projected_moment_tensor slip_type rake poissons_ratio = Inr zeros33)
   \<and> (coordinates \<notin> set [''xyz'', ''XYZ'', ''ENZ'', ''enz''] \<longrightarrow>
      (\<exists>Mshear Mopen.
         fault_projected_moment_tensor ''shear'' rake' default_poissons_ratio = Inr Mshear
         \<and> fault_projected_moment_tensor ''opening'' default_rake default_poissons_ratio
             = Inr Mopen
         \<and> create_moment_tensor strike dip rake' opening_angle coordinates poissons_ratio' =
             Inr (add33 (scale33 (cos (opening_angle * pi / 180)) Mshear)
                        (scale33 (sin (opening_angle * pi / 180)) Mopen))))"
proof (intro conjI impI)
  assume "slip_type \<notin> set [''shear'', ''opening'', ''explosion''] \<and> poissons_ratio \<noteq> 1 / 2"
  then have "poissons_ratio \<noteq> 1 / 2"
    and "slip_type \<notin> set [''shear'', ''opening'', ''explosion'']"
    by (rule conjunct2, rule conjunct1)
  then show "fault_projected_moment_tensor slip_type rake poissons_ratio = Inr zeros33"
    by (rule fpmt_other)
next
  assume c: "coordinates \<notin> set [''xyz'', ''XYZ'', ''ENZ'', ''enz'']"
  show "\<exists>Mshear Mopen.
         fault_projected_moment_tensor ''shear'' rake' default_poissons_ratio = Inr Mshear
         \<and> fault_projected_moment_tensor ''opening'' default_rake default_poissons_ratio
             = Inr Mopen
         \<and> create_moment_tensor strike dip rake' opening_angle coordinates poissons_ratio' =
             Inr (add33 (scale33 (cos (opening_angle * pi / 180)) Mshear)
                        (scale33 (sin (opening_angle * pi / 180)) Mopen))"
    unfolding create_moment_tensor_fault_frame [OF c] fpmt_shear_default fpmt_opening_default
      blended_def
    by (rule exI, rule exI) (intro conjI; rule refl)
qed

theorem unrecognized_inputs_fall_back_witness:
  "fault_projected_moment_tensor ''slip'' 90 (1 / 4) = Inr zeros33
   \<and> create_moment_tensor 30 20 90 0 ''fault'' (1 / 10) =
       Inr ((0, 0, - 1), (0, 0, 0), (- 1, 0, 0))"
  using unrecognized_inputs_fall_back
    [of "''slip''" "1 / 4" 90 "''fault''" 90 30 20 0 "1 / 10"]
  by (simp add: fpmt_shear_default fpmt_opening_default)

text \<open>
  Claim C9: Poisson's ratio affects the opening mode only. For the slip types shear and
  explosion and any rake, two calls of \<open>fault_projected_moment_tensor\<close> that differ
  in their Poisson's ratio alone, both ratios strictly between 0 and 0.5, return the
  same tensor.
\<close>

theorem poissons_ratio_only_affects_opening:
  "slip_type \<in> set [''shear'', ''explosion''] \<Longrightarrow>
   0 < poissons_ratio \<Longrightarrow> poissons_ratio < 1 / 2 \<Longrightarrow>
   0 < poissons_ratio' \<Longrightarrow> poissons_ratio' < 1 / 2 \<Longrightarrow>
   \<exists>M. fault_projected_moment_tensor slip_type rake poissons_ratio = Inr M
     \<and> fault_projected_moment_tensor slip_type rake poissons_ratio' = Inr M"
  by (auto simp: fpmt_shear fpmt_explosion)

theorem poissons_ratio_only_affects_opening_witness:
  "\<exists>M. fault_projected_moment_tensor ''shear'' 30 (1 / 10) = Inr M
     \<and> fault_projected_moment_tensor ''shear'' 30 (4 / 10) = Inr M"
  using poissons_ratio_only_affects_opening [of "''shear''" "1 / 10" "4 / 10" 30] by simp

section \<open>What is left out\<close>

text \<open>
  Four properties of the formulas are identities of real arithmetic and are not stated
  here: that the three vectors of \<open>calc_unit_vectors\<close> are orthonormal, that the
  tensor of \<open>create_moment_tensor\<close> is symmetric in the geographic frame, that
  \<open>calc_radiation_pattern\<close> is linear in its tensor, and that the two rotations keep
  the trace. They rest on \<open>sin\<^sup>2 + cos\<^sup>2 = 1\<close> and on the associative and distributive
  laws, none of which holds for the rounded operations of IEEE doubles; what the
  program returns there depends on the rounding of every operation, on the \<open>sin\<close> and
  \<open>cos\<close> of the platform and on the summation order behind \<open>np.dot\<close> and
  \<open>np.tensordot\<close>, which the source does not fix.
\<close>

end
